theory Spec2Isabelle
  imports Main
begin

section \<open>Jovimetrix web extensions: the queue node and the menu converter\<close>

text \<open>
  Two front-end extensions are embedded: \<^verbatim>\<open>queue.js\<close> (the handlers of the node type
  \<^verbatim>\<open>QUEUE (JOV)\<close>) and \<^verbatim>\<open>core_cozy_menu.js\<close> (the context-menu hook). JavaScript
  objects are records, \<^verbatim>\<open>undefined\<close> is \<open>None\<close>, a thrown \<^verbatim>\<open>TypeError\<close> is the left
  summand of the result (for a handler that assigns to the node, together with the node as
  the throw leaves it), and calls into the host (canvas, api, timers, the hook that was
  installed before) are entries of an effect log carried by the node. Where the source
  function is \<^verbatim>\<open>async\<close>, it contains no \<^verbatim>\<open>await\<close> before its last statement, so its body runs
  in one go and a \<^verbatim>\<open>TypeError\<close> in it is the rejection of the promise it returns.

  Strings are byte lists in UTF-8; the code only compares strings, splits and joins them at
  the line feed and tests ASCII prefixes and substrings, all of which agree on UTF-8 bytes
  and on UTF-16 code units.
\<close>

subsection \<open>Strings\<close>

definition nl :: char where
  "nl = CHR 0x0A"

text \<open>\<^verbatim>\<open>s.split('\n')\<close>: the pieces between line feeds; the empty string gives one empty piece.\<close>

fun split_nl :: "string \<Rightarrow> string list" where
  "split_nl [] = [[]]"
| "split_nl (c # cs) =
     (if c = nl then [] # split_nl cs
      else (case split_nl cs of [] \<Rightarrow> [[c]] | p # ps \<Rightarrow> (c # p) # ps))"

text \<open>\<^verbatim>\<open>xs.join('\n')\<close> on an array of strings.\<close>

fun join_nl :: "string list \<Rightarrow> string" where
  "join_nl [] = []"
| "join_nl [x] = x"
| "join_nl (x # y # ys) = x @ nl # join_nl (y # ys)"

text \<open>\<^verbatim>\<open>s.startsWith(p)\<close> and \<^verbatim>\<open>s.includes(p)\<close>.\<close>

fun startsWith :: "string \<Rightarrow> string \<Rightarrow> bool" where
  "startsWith s [] = True"
| "startsWith [] (p # ps) = False"
| "startsWith (c # cs) (p # ps) = (c = p \<and> startsWith cs ps)"

fun includes_str :: "string \<Rightarrow> string \<Rightarrow> bool" where
  "includes_str [] p = (p = [])"
| "includes_str (c # cs) p = (startsWith (c # cs) p \<or> includes_str cs p)"

text \<open>
  A number inside a template literal. The numbers of this program are counters and list
  lengths, modelled as integers; the decimal digits below are what JavaScript prints for
  an integer of magnitude less than \<open>10^21\<close>.
\<close>

definition digit :: "nat \<Rightarrow> char" where
  "digit d = ''0123456789'' ! d"

function string_of_nat :: "nat \<Rightarrow> string" where
  "string_of_nat n =
     (if n < 10 then [digit n] else string_of_nat (n div 10) @ [digit (n mod 10)])"
  by pat_completeness auto
termination
  by (relation "measure id") auto

declare string_of_nat.simps [simp del]

definition string_of_int :: "int \<Rightarrow> string" where
  "string_of_int i = (if i < 0 then CHR ''-'' # string_of_nat (nat (- i)) else string_of_nat (nat i))"

subsection \<open>Constants of \<^verbatim>\<open>queue.js\<close>\<close>

text \<open>\<^verbatim>\<open>_prefix\<close> is the one code point U+1F984, the placeholder name of the output socket.\<close>

definition prefix_glyph :: string where
  "prefix_glyph = [CHR 0xF0, CHR 0x9F, CHR 0xA6, CHR 0x84]"

text \<open>\<^verbatim>\<open>_id\<close>: \<^verbatim>\<open>QUEUE (JOV)\<close> followed by a space and U+1F5C3.\<close>

definition queue_id :: string where
  "queue_id = ''QUEUE (JOV) '' @ [CHR 0xF0, CHR 0x9F, CHR 0x97, CHR 0x83]"

definition EVENT_JOVI_PING :: string where
  "EVENT_JOVI_PING = ''jovi-queue-ping''"

definition EVENT_JOVI_DONE :: string where
  "EVENT_JOVI_DONE = ''jovi-queue-done''"

subsection \<open>Data model\<close>

datatype error = TypeError

text \<open>
  What a handler does to the host besides changing the node: \<^verbatim>\<open>app.canvas.setDirty(true)\<close>,
  \<^verbatim>\<open>api_cmd_jovian(id, cmd)\<close>, \<^verbatim>\<open>fitHeight(this)\<close>, \<^verbatim>\<open>flashBackgroundColor(...)\<close>,
  \<^verbatim>\<open>api.addEventListener(name, f)\<close>, \<^verbatim>\<open>setTimeout(..., 10)\<close>, and the call of the hook
  that the prototype held before this extension replaced it.
\<close>

datatype effect =
    SetDirty
  | ApiCmd int string
  | FitHeight
  | FlashBackground
  | AddListener string
  | SetTimeout
  | PrevHook

text \<open>\<^verbatim>\<open>widget.options\<close>, as far as the code reads it; an absent property is \<open>None\<close>.\<close>

record woptions =
  o_values :: "string list option"
  o_forceInput :: "bool option"
  o_menu :: "bool option"

text \<open>A widget of some node of the graph; \<^verbatim>\<open>w_value\<close> is the text of a text or combo widget.\<close>

record widget =
  w_name :: string
  w_type :: string
  w_origType :: "string option"
  w_value :: string
  w_options :: "woptions option"

record slot =
  s_name :: string

text \<open>A node of the graph as the link handlers see it (\<^verbatim>\<open>inputs\<close> and \<^verbatim>\<open>widgets\<close> may be absent).\<close>

record graph_node =
  g_inputs :: "slot list option"
  g_widgets :: "widget list option"

record link_info =
  target_id :: int
  target_slot :: nat

text \<open>
  The two toggles (hold, \<^verbatim>\<open>RESET\<close>) and the numeric control \<^verbatim>\<open>VAL\<close> of the queue node. The
  host declares \<^verbatim>\<open>VAL\<close> numeric, so its value is an integer here and \<^verbatim>\<open>value == 0\<close> is
  equality with \<open>0\<close>.
\<close>

record toggle =
  t_value :: bool
  t_hidden :: bool

record numeric =
  n_value :: int

text \<open>
  The queue node. \<^verbatim>\<open>found_Q\<close>, \<^verbatim>\<open>found_hold\<close>, \<^verbatim>\<open>found_RESET\<close> and \<^verbatim>\<open>found_VAL\<close> are the
  results of \<^verbatim>\<open>this.widgets.find(w => w.name === ...)\<close> for the four names the code looks up
  (\<open>None\<close> when no widget has the name); \<^verbatim>\<open>found_Q\<close> holds the text of the list widget.
  \<^verbatim>\<open>widget_report\<close> is the value of \<^verbatim>\<open>this.widget_report\<close> and \<^verbatim>\<open>widget_queue\<close> the value of
  \<^verbatim>\<open>this.widget_queue\<close>, each \<open>None\<close> while the property is undefined. Node ids are
  integers and \<^verbatim>\<open>!=\<close> on them is disequality.
\<close>

record queue_node =
  node_id :: int
  data_index :: int
  data_current :: string
  data_all :: "string list"
  data_count :: "nat option"
  outputs :: "slot list"
  found_Q :: "string option"
  found_hold :: "toggle option"
  found_RESET :: "toggle option"
  found_VAL :: "numeric option"
  widget_report :: "string option"
  widget_queue :: "string option"
  effects :: "effect list"

text \<open>
  An exception leaves a handler together with the node as the assignments before the throw
  have left it: what was written to \<^verbatim>\<open>this\<close> stays written.
\<close>

type_synonym thrown = "error \<times> queue_node"

text \<open>The payload \<^verbatim>\<open>event.detail\<close> of the two events of the worker.\<close>

record ping_detail =
  d_id :: int
  d_i :: int
  d_l :: "string list"
  d_c :: string

subsection \<open>Report and list update\<close>

text \<open>The template literal of \<^verbatim>\<open>update_report\<close>.\<close>

definition report_text :: "queue_node \<Rightarrow> string" where
  "report_text self =
     ''['' @ string_of_int (data_index self) @ '' / '' @ string_of_nat (length (data_all self))
       @ '']'' @ [nl] @ data_current self"

definition update_report :: "queue_node \<Rightarrow> thrown + queue_node" where
  "update_report self =
     (case widget_report self of
        None \<Rightarrow> Inl (TypeError, self)
      | Some _ \<Rightarrow>
          Inr (self\<lparr>widget_report := Some (report_text self),
                    effects := effects self @ [SetDirty]\<rparr>))"

definition update_list :: "queue_node \<Rightarrow> string list \<Rightarrow> thrown + queue_node" where
  "update_list self val =
     (case update_report (self\<lparr>data_count := Some (length val),
                                data_index := 1,
                                data_current := []\<rparr>) of
        Inl t \<Rightarrow> Inl t
      | Inr self' \<Rightarrow> Inr (self'\<lparr>effects := effects self' @ [ApiCmd (node_id self') ''reset'']\<rparr>))"

subsection \<open>The handlers installed by \<^verbatim>\<open>onNodeCreated\<close>\<close>

text \<open>The listener of the worker's progress event.\<close>

definition python_queue_ping :: "queue_node \<Rightarrow> ping_detail \<Rightarrow> thrown + queue_node" where
  "python_queue_ping self detail =
     (if d_id detail \<noteq> node_id self then Inr self
      else update_report (self\<lparr>data_index := d_i detail,
                                data_all := d_l detail,
                                data_current := d_c detail\<rparr>))"

text \<open>
  Modelled from the spec: \<^verbatim>\<open>widget_hide\<close> and \<^verbatim>\<open>widget_show\<close> of \<^verbatim>\<open>util_widget.js\<close> are
  not among the sources. The specification says of them only that the first hides a control
  and the second shows it again; the model keeps one visibility flag per control.
\<close>

definition widget_hide :: "toggle \<Rightarrow> toggle" where
  "widget_hide w = w\<lparr>t_hidden := True\<rparr>"

definition widget_show :: "toggle \<Rightarrow> toggle" where
  "widget_show w = w\<lparr>t_hidden := False\<rparr>"

text \<open>\<^verbatim>\<open>widget_value.callback\<close>. The function is \<^verbatim>\<open>async\<close> but never awaits, so it runs in one go.\<close>

definition widget_value_callback :: "queue_node \<Rightarrow> thrown + queue_node" where
  "widget_value_callback this =
     (let this1 = this\<lparr>found_hold := map_option widget_hide (found_hold this)\<rparr>;
          this2 = this1\<lparr>found_RESET := map_option widget_hide (found_RESET this1)\<rparr>
      in case found_VAL this2 of
           None \<Rightarrow> Inl (TypeError, this2)
         | Some widget_value \<Rightarrow>
             (let this3 =
                    (if n_value widget_value = 0
                     then (let s = this2\<lparr>found_RESET := map_option widget_show (found_RESET this2)\<rparr>
                           in s\<lparr>found_hold := map_option widget_show (found_hold s)\<rparr>)
                     else this2)
              in Inr (this3\<lparr>effects := effects this3 @ [FitHeight]\<rparr>)))"

text \<open>
  The \<^verbatim>\<open>input\<close> listener of the list widget. It is attached with \<^verbatim>\<open>widget_queue?.\<close>, so
  without a widget named \<^verbatim>\<open>Q\<close> there is no listener and nothing happens.
\<close>

definition widget_queue_input :: "queue_node \<Rightarrow> thrown + queue_node" where
  "widget_queue_input self =
     (case found_Q self of
        None \<Rightarrow> Inr self
      | Some text \<Rightarrow> update_list self (split_nl text))"

text \<open>\<^verbatim>\<open>widget_reset.callback\<close>.\<close>

definition widget_reset_callback :: "queue_node \<Rightarrow> thrown + queue_node" where
  "widget_reset_callback self =
     (case found_RESET self of
        None \<Rightarrow> Inl (TypeError, self)
      | Some widget_reset \<Rightarrow>
          Inr (self\<lparr>found_RESET := Some (widget_reset\<lparr>t_value := False\<rparr>),
                    effects := effects self @ [ApiCmd (node_id self) ''reset'']\<rparr>))"

text \<open>
  The listener of the worker's completion event; its payload is the id. The flash is played
  on \<^verbatim>\<open>self.widget_queue.inputEl\<close>, a property read of \<^verbatim>\<open>self.widget_queue\<close>.
\<close>

definition python_queue_done :: "queue_node \<Rightarrow> int \<Rightarrow> thrown + queue_node" where
  "python_queue_done self detail_id =
     (if detail_id \<noteq> node_id self then Inr self
      else (case widget_queue self of
              None \<Rightarrow> Inl (TypeError, self)
            | Some _ \<Rightarrow> Inr (self\<lparr>effects := effects self @ [FlashBackground]\<rparr>)))"

subsection \<open>\<^verbatim>\<open>onNodeCreated\<close>\<close>

text \<open>
  The earlier hook runs first. The four widgets are looked up; assigning \<^verbatim>\<open>.callback\<close> on
  \<^verbatim>\<open>widget_value\<close> and on \<^verbatim>\<open>widget_reset\<close> throws when the lookup gave \<^verbatim>\<open>undefined\<close>. The
  report widget is created by the host's \<^verbatim>\<open>ComfyWidgets.STRING\<close> with an empty text. The
  local constant \<^verbatim>\<open>widget_queue\<close> is never stored in \<^verbatim>\<open>this.widget_queue\<close>, so that
  property is left as it was.
\<close>

definition onNodeCreated :: "queue_node \<Rightarrow> thrown + queue_node" where
  "onNodeCreated this0 =
     (let this1 = this0\<lparr>effects := effects this0 @ [PrevHook]\<rparr>;
          this = this1\<lparr>data_index := 1, data_current := [], data_all := []\<rparr>
      in case found_VAL this of
           None \<Rightarrow> Inl (TypeError, this)
         | Some _ \<Rightarrow>
             (case found_RESET this of
                None \<Rightarrow> Inl (TypeError, this)
              | Some _ \<Rightarrow>
                  Inr (this\<lparr>widget_report := Some [],
                            effects := effects this @
                              [AddListener EVENT_JOVI_PING, AddListener EVENT_JOVI_DONE, SetTimeout]\<rparr>)))"

subsection \<open>\<^verbatim>\<open>onConnectOutput\<close>\<close>

text \<open>
  The hook returns \<^verbatim>\<open>false\<close> (\<open>RejectLink\<close>) or whatever the earlier hook returns
  (\<open>PrevResult\<close>; \<^verbatim>\<open>undefined\<close> when there was none). The input type is the string the host
  passes. \<^verbatim>\<open>&&\<close> evaluates its right operand only when the left one holds, and \<^verbatim>\<open>!=\<close>
  evaluates \<^verbatim>\<open>this.widget_queue.value\<close> before \<^verbatim>\<open>widget.options.values.join('\n')\<close>.
  The hook assigns nothing, so its exception carries no node.
\<close>

datatype connect_result = RejectLink | PrevResult

definition onConnectOutput ::
  "queue_node \<Rightarrow> int \<Rightarrow> string \<Rightarrow> slot \<Rightarrow> graph_node \<Rightarrow> error + connect_result" where
  "onConnectOutput this outputIndex inputType inputSlot inputNode =
     (if outputIndex = 0 then
        (if inputType = ''COMBO'' then
           (case g_widgets inputNode of
              None \<Rightarrow> Inl TypeError
            | Some ws \<Rightarrow>
                (let widget = find (\<lambda>w. w_name w = s_name inputSlot) ws
                 in case outputs this of
                      [] \<Rightarrow> Inl TypeError
                    | out0 # _ \<Rightarrow>
                        (if s_name out0 \<noteq> prefix_glyph then
                           (case widget_queue this of
                              None \<Rightarrow> Inl TypeError
                            | Some text \<Rightarrow>
                                (case widget of
                                   None \<Rightarrow> Inl TypeError
                                 | Some w \<Rightarrow>
                                     (case w_options w of
                                        None \<Rightarrow> Inl TypeError
                                      | Some opts \<Rightarrow>
                                          (case o_values opts of
                                             None \<Rightarrow> Inl TypeError
                                           | Some vals \<Rightarrow>
                                               (if text \<noteq> join_nl vals then Inr RejectLink
                                                else Inr PrevResult)))))
                         else Inr PrevResult)))
         else Inr PrevResult)
      else Inr PrevResult)"

subsection \<open>\<^verbatim>\<open>onConnectionsChange\<close>\<close>

text \<open>
  Modelled from the spec: \<^verbatim>\<open>TypeSlot\<close> and \<^verbatim>\<open>TypeSlotEvent\<close> of \<^verbatim>\<open>util.js\<close> are not among
  the sources; the specification names a slot-type enumeration (input, output) and an event
  kind (connect, disconnect).
\<close>

datatype TypeSlot = Input | Output

datatype TypeSlotEvent = Connect | Disconnect

text \<open>\<^verbatim>\<open>this.outputs[0].name = nm\<close>; without an output socket the write of \<^verbatim>\<open>.name\<close> throws.\<close>

definition set_output0_name :: "queue_node \<Rightarrow> string \<Rightarrow> thrown + queue_node" where
  "set_output0_name this nm =
     (case outputs this of
        [] \<Rightarrow> Inl (TypeError, this)
      | out0 # rest \<Rightarrow> Inr (this\<lparr>outputs := out0\<lparr>s_name := nm\<rparr> # rest\<rparr>))"

text \<open>The closing \<^verbatim>\<open>return onConnectionsChange?.apply(this, arguments)\<close>.\<close>

definition call_prev :: "thrown + queue_node \<Rightarrow> thrown + queue_node" where
  "call_prev r =
     (case r of
        Inl t \<Rightarrow> Inl t
      | Inr this \<Rightarrow> Inr (this\<lparr>effects := effects this @ [PrevHook]\<rparr>))"

text \<open>The test \<^verbatim>\<open>widget?.origType == "combo" || widget.type == "COMBO"\<close>.\<close>

definition is_combo :: "widget \<Rightarrow> bool" where
  "is_combo widget = (w_origType widget = Some ''combo'' \<or> w_type widget = ''COMBO'')"

text \<open>
  The branch taken once the downstream widget is found. The socket is renamed first; a
  \<^verbatim>\<open>TypeError\<close> in the combo branch (\<^verbatim>\<open>widget.options\<close>, \<^verbatim>\<open>values.join\<close> or
  \<^verbatim>\<open>this.widget_queue\<close> undefined) leaves with the socket renamed and nothing else changed.
\<close>

definition bind_widget :: "queue_node \<Rightarrow> widget \<Rightarrow> thrown + queue_node" where
  "bind_widget this widget =
     (case set_output0_name this (w_name widget) of
        Inl t \<Rightarrow> Inl t
      | Inr this1 \<Rightarrow>
          (if is_combo widget then
             (case w_options widget of
                None \<Rightarrow> Inl (TypeError, this1)
              | Some opts \<Rightarrow>
                  (case o_values opts of
                     None \<Rightarrow> Inl (TypeError, this1)
                   | Some vals \<Rightarrow>
                       (case widget_queue this1 of
                          None \<Rightarrow> Inl (TypeError, this1)
                        | Some _ \<Rightarrow>
                            update_list (this1\<lparr>widget_queue := Some (join_nl vals)\<rparr>) vals)))
           else Inr this1))"

text \<open>
  \<^verbatim>\<open>getNodeById\<close> is the graph of the application. The three plain \<^verbatim>\<open>return\<close> statements
  leave before the earlier hook is called. \<^verbatim>\<open>node.inputs[i]\<close> is \<^verbatim>\<open>undefined\<close> beyond the
  end of the array.
\<close>

definition onConnectionsChange ::
  "(int \<Rightarrow> graph_node option) \<Rightarrow> queue_node \<Rightarrow> TypeSlot \<Rightarrow> int \<Rightarrow> TypeSlotEvent
     \<Rightarrow> link_info option \<Rightarrow> thrown + queue_node" where
  "onConnectionsChange getNodeById this slotType slot_no event link =
     (if slotType = Output \<and> slot_no = 0 then
        (case link of
           Some li \<Rightarrow>
             (if event = Connect then
                (case getNodeById (target_id li) of
                   None \<Rightarrow> Inr this
                 | Some node \<Rightarrow>
                     (case g_inputs node of
                        None \<Rightarrow> Inr this
                      | Some inputs \<Rightarrow>
                          (if target_slot li < length inputs then
                             (let target = inputs ! target_slot li
                              in case (case g_widgets node of
                                         None \<Rightarrow> None
                                       | Some ws \<Rightarrow> find (\<lambda>w. w_name w = s_name target) ws) of
                                   None \<Rightarrow> Inr this
                                 | Some widget \<Rightarrow> call_prev (bind_widget this widget))
                           else Inr this)))
              else call_prev (set_output0_name this prefix_glyph))
         | None \<Rightarrow> call_prev (set_output0_name this prefix_glyph))
      else call_prev (Inr this))"

text \<open>
  The lookups of the connect branch on their own: the target node, its inputs, the target
  slot and the widget named like the slot; \<open>None\<close> when any of them is missing.
\<close>

definition downstream_widget :: "(int \<Rightarrow> graph_node option) \<Rightarrow> link_info \<Rightarrow> widget option" where
  "downstream_widget getNodeById li =
     (case getNodeById (target_id li) of
        None \<Rightarrow> None
      | Some node \<Rightarrow>
          (case g_inputs node of
             None \<Rightarrow> None
           | Some inputs \<Rightarrow>
               (if target_slot li < length inputs then
                  (case g_widgets node of
                     None \<Rightarrow> None
                   | Some ws \<Rightarrow> find (\<lambda>w. w_name w = s_name (inputs ! target_slot li)) ws)
                else None)))"

subsection \<open>The menu converter (\<^verbatim>\<open>core_cozy_menu.js\<close>)\<close>

text \<open>
  The schema \<^verbatim>\<open>nodeData.input\<close>: two optional dictionaries from input name to type, kept as
  association lists in the order \<^verbatim>\<open>Object.entries\<close> lists them.
\<close>

record input_schema =
  required :: "(string \<times> string) list option"
  optional :: "(string \<times> string) list option"

record node_data =
  nd_name :: string
  nd_input :: "input_schema option"

text \<open>
  What \<^verbatim>\<open>beforeRegisterNodeDef\<close> does to \<^verbatim>\<open>nodeType.prototype.getExtraMenuOptions\<close>: it
  leaves it alone, or it replaces it by the hook below, closed over \<^verbatim>\<open>matchingTypes\<close>.
\<close>

datatype registration = Unmodified | Installed "(string \<times> string) list"

definition entries_or_empty :: "(string \<times> string) list option \<Rightarrow> (string \<times> string) list" where
  "entries_or_empty d = (case d of None \<Rightarrow> [] | Some es \<Rightarrow> es)"

definition beforeRegisterNodeDef :: "node_data \<Rightarrow> registration" where
  "beforeRegisterNodeDef nodeData =
     (if \<not> includes_str (nd_name nodeData) ''(JOV)'' then Unmodified
      else (case nd_input nodeData of
              None \<Rightarrow> Installed []
            | Some inputTypes \<Rightarrow>
                (let matchingTypes =
                       concat (map entries_or_empty [required inputTypes, optional inputTypes])
                 in if length matchingTypes = 0 then Unmodified
                    else Installed matchingTypes)))"

text \<open>
  A menu entry is \<^verbatim>\<open>null\<close> or an object; \<open>e_content\<close> is its \<^verbatim>\<open>content\<close> when that is a
  string. The callback of an entry made here converts the widget of the given name to an
  input of the given type; callbacks of other entries are opaque.
\<close>

datatype action = ConvertToInput string string | HostAction nat

datatype menu_option = Null | Entry (e_content: "string option") (e_callback: action)

record menu_node =
  m_widgets :: "widget list option"

text \<open>\<^verbatim>\<open>widget.options?.forceInput\<close> and \<^verbatim>\<open>widget.options?.menu\<close>.\<close>

definition opt_forceInput :: "widget \<Rightarrow> bool option" where
  "opt_forceInput w = (case w_options w of None \<Rightarrow> None | Some opts \<Rightarrow> o_forceInput opts)"

definition opt_menu :: "widget \<Rightarrow> bool option" where
  "opt_menu w = (case w_options w of None \<Rightarrow> None | Some opts \<Rightarrow> o_menu opts)"

text \<open>
  The loop over \<^verbatim>\<open>matchingTypes\<close> that fills \<^verbatim>\<open>convertToInputArray\<close>. \<^verbatim>\<open>CONVERTED_TYPE\<close> is
  a constant of \<^verbatim>\<open>util_widget.js\<close>, which is not among the sources; it is a parameter. The
  label is spelled as the source spells it.
\<close>

fun convertToInputArray :: "string \<Rightarrow> widget list \<Rightarrow> (string \<times> string) list \<Rightarrow> menu_option list" where
  "convertToInputArray CONVERTED_TYPE widgets [] = []"
| "convertToInputArray CONVERTED_TYPE widgets ((widgetName, widgetType) # rest) =
     (case find (\<lambda>m. w_name m = widgetName) widgets of
        None \<Rightarrow> convertToInputArray CONVERTED_TYPE widgets rest
      | Some widget \<Rightarrow>
          (if w_type widget \<noteq> CONVERTED_TYPE
              \<and> (opt_forceInput widget = None \<or> opt_forceInput widget = Some False)
              \<and> opt_menu widget \<noteq> Some False
           then Entry (Some (''Convsert '' @ w_name widget @ '' to input''))
                      (ConvertToInput (w_name widget) widgetType)
                  # convertToInputArray CONVERTED_TYPE widgets rest
           else convertToInputArray CONVERTED_TYPE widgets rest))"

text \<open>The predicate of \<^verbatim>\<open>options.filter\<close>: an entry stays unless its content is a string that starts with \<^verbatim>\<open>Convert\<close>.\<close>

fun keeps :: "menu_option \<Rightarrow> bool" where
  "keeps Null = True"
| "keeps (Entry None cb) = True"
| "keeps (Entry (Some c) cb) = (\<not> startsWith c ''Convert'')"

text \<open>
  Arrays live in a store, a list of arrays addressed by position, because the hook both
  rebinds its parameter \<^verbatim>\<open>options\<close> and mutates the array the parameter points to.
  \<^verbatim>\<open>filter\<close> allocates a new array; \<^verbatim>\<open>push\<close> changes an array in place.
\<close>

type_synonym store = "menu_option list list"

definition array_at :: "store \<Rightarrow> nat \<Rightarrow> menu_option list option" where
  "array_at h a = (if a < length h then Some (h ! a) else None)"

definition alloc :: "store \<Rightarrow> menu_option list \<Rightarrow> nat \<times> store" where
  "alloc h arr = (length h, h @ [arr])"

definition push :: "store \<Rightarrow> nat \<Rightarrow> menu_option list \<Rightarrow> store" where
  "push h a new = h[a := h ! a @ new]"

text \<open>
  The hook. \<open>prev\<close> is what the earlier hook does to the store (the identity when there was
  none); \<open>options\<close> is the caller's reference, \<open>None\<close> for \<^verbatim>\<open>undefined\<close>. A reference of a
  running program always has its array; the model answers \<open>TypeError\<close> for one that has
  not. The result is the store when the hook returns.
\<close>

definition getExtraMenuOptions ::
  "string \<Rightarrow> (string \<times> string) list \<Rightarrow> (store \<Rightarrow> store) \<Rightarrow> menu_node \<Rightarrow> nat option \<Rightarrow> store
     \<Rightarrow> error + store" where
  "getExtraMenuOptions CONVERTED_TYPE matchingTypes prev this options h0 =
     (let h = prev h0
      in case m_widgets this of
           None \<Rightarrow> Inr h
         | Some widgets \<Rightarrow>
             (let arr = convertToInputArray CONVERTED_TYPE widgets matchingTypes
              in case options of
                   None \<Rightarrow> (if length arr \<noteq> 0 then Inl TypeError else Inr h)
                 | Some a \<Rightarrow>
                     (case array_at h a of
                        None \<Rightarrow> Inl TypeError
                      | Some old \<Rightarrow>
                          (let (a', h1) = alloc h (filter keeps old)
                           in if length arr \<noteq> 0 then Inr (push h1 a' (arr @ [Null]))
                              else Inr h1))))"

subsection \<open>Example states\<close>

text \<open>A host node with the four widgets, before \<^verbatim>\<open>onNodeCreated\<close> has run; its id is 7.\<close>

definition host_node :: queue_node where
  "host_node =
     \<lparr>node_id = 7, data_index = 0, data_current = [], data_all = [], data_count = None,
      outputs = [\<lparr>s_name = prefix_glyph\<rparr>],
      found_Q = Some [],
      found_hold = Some \<lparr>t_value = False, t_hidden = False\<rparr>,
      found_RESET = Some \<lparr>t_value = False, t_hidden = False\<rparr>,
      found_VAL = Some \<lparr>n_value = 0\<rparr>,
      widget_report = None, widget_queue = None, effects = []\<rparr>"

text \<open>The three-line text \<^verbatim>\<open>a\nb\nc\<close>.\<close>

definition text_abc :: string where
  "text_abc = ''a'' @ [nl] @ ''b'' @ [nl] @ ''c''"

text \<open>The node after creation, as \<^verbatim>\<open>onNodeCreated\<close> leaves it.\<close>

definition created_node :: queue_node where
  "created_node =
     host_node\<lparr>data_index := 1, widget_report := Some [],
       effects := [PrevHook, AddListener EVENT_JOVI_PING, AddListener EVENT_JOVI_DONE, SetTimeout]\<rparr>"

text \<open>Two progress payloads for node 7: index 2 of three items, and index 5 of three items.\<close>

definition detail_2abc :: ping_detail where
  "detail_2abc = \<lparr>d_id = 7, d_i = 2, d_l = [''a'', ''b'', ''c''], d_c = ''b''\<rparr>"

definition detail_5xyz :: ping_detail where
  "detail_5xyz = \<lparr>d_id = 7, d_i = 5, d_l = [''x'', ''y'', ''z''], d_c = ''q''\<rparr>"

text \<open>A downstream combo widget \<^verbatim>\<open>sampler\<close> with the values \<^verbatim>\<open>x\<close> and \<^verbatim>\<open>y\<close>, a number widget \<^verbatim>\<open>seed\<close>, and a node that has both behind its inputs 0 and 1.\<close>

definition combo_widget :: widget where
  "combo_widget =
     \<lparr>w_name = ''sampler'', w_type = ''COMBO'', w_origType = None, w_value = ''x'',
      w_options = Some \<lparr>o_values = Some [''x'', ''y''], o_forceInput = None, o_menu = None\<rparr>\<rparr>"

definition number_widget :: widget where
  "number_widget =
     \<lparr>w_name = ''seed'', w_type = ''number'', w_origType = None, w_value = ''0'',
      w_options = Some \<lparr>o_values = None, o_forceInput = None, o_menu = None\<rparr>\<rparr>"

definition downstream :: graph_node where
  "downstream =
     \<lparr>g_inputs = Some [\<lparr>s_name = ''sampler''\<rparr>, \<lparr>s_name = ''seed''\<rparr>],
      g_widgets = Some [combo_widget, number_widget]\<rparr>"

text \<open>
  The created node with a list text \<^verbatim>\<open>a\<close> in \<^verbatim>\<open>this.widget_queue\<close>: once with the output
  socket still named by the placeholder, once with the socket renamed to \<^verbatim>\<open>seed\<close>.
\<close>

definition unbound_node :: queue_node where
  "unbound_node = created_node\<lparr>widget_queue := Some ''a''\<rparr>"

definition bound_node :: queue_node where
  "bound_node = created_node\<lparr>outputs := [\<lparr>s_name = ''seed''\<rparr>], widget_queue := Some ''a''\<rparr>"

text \<open>A graph whose only other node is \<open>downstream\<close>, with id 3.\<close>

definition graph3 :: "int \<Rightarrow> graph_node option" where
  "graph3 i = (if i = 3 then Some downstream else None)"

section \<open>Properties\<close>

subsection \<open>Strings and the report\<close>

lemma string_of_nat_digits:
  "string_of_nat 0 = ''0''" "string_of_nat 1 = ''1''" "string_of_nat 2 = ''2''"
  "string_of_nat 3 = ''3''" "string_of_nat 5 = ''5''"
  by (simp_all add: string_of_nat.simps digit_def)

lemma string_of_int_digits:
  "string_of_int 1 = ''1''" "string_of_int 2 = ''2''" "string_of_int 5 = ''5''"
  by (simp_all add: string_of_int_def string_of_nat.simps digit_def)

lemma split_nl_nonempty: "split_nl s \<noteq> []"
  by (induction s) (auto split: list.splits)

lemma split_text_abc: "split_nl text_abc = [''a'', ''b'', ''c'']"
  by (simp add: text_abc_def nl_def)

text \<open>Joining the pieces of a split gives the text back.\<close>

lemma join_split_nl: "join_nl (split_nl s) = s"
proof (induction s)
  case Nil
  then show ?case by simp
next
  case (Cons c cs)
  obtain p ps where sp: "split_nl cs = p # ps"
    using split_nl_nonempty [of cs] by (cases "split_nl cs") auto
  show ?case
  proof (cases "c = nl")
    case True
    with Cons sp show ?thesis by simp
  next
    case False
    with Cons sp show ?thesis by (cases ps) auto
  qed
qed

lemma update_report_Some:
  "widget_report self = Some r \<Longrightarrow>
   update_report self =
     Inr (self\<lparr>widget_report := Some (report_text self), effects := effects self @ [SetDirty]\<rparr>)"
  by (simp add: update_report_def)

lemma update_list_Some:
  "widget_report self = Some r \<Longrightarrow>
   update_list self val =
     Inr (self\<lparr>data_count := Some (length val), data_index := 1, data_current := [],
               widget_report := Some (report_text (self\<lparr>data_index := 1, data_current := []\<rparr>)),
               effects := effects self @ [SetDirty, ApiCmd (node_id self) ''reset'']\<rparr>)"
  by (simp add: update_list_def update_report_def report_text_def)

lemma update_list_None:
  "widget_report self = None \<Longrightarrow>
   update_list self val =
     Inl (TypeError, self\<lparr>data_count := Some (length val), data_index := 1, data_current := []\<rparr>)"
  by (simp add: update_list_def update_report_def)

subsection \<open>Creation and list edit\<close>

lemma onNodeCreated_host: "onNodeCreated host_node = Inr created_node"
  by (simp add: onNodeCreated_def host_node_def created_node_def Let_def)

text \<open>
  What a list edit does on any node that has the list widget and the report widget: the
  counter \<^verbatim>\<open>data_count\<close> takes the number of lines, cursor and label are reset, the report
  is rewritten and the reset command is sent. \<^verbatim>\<open>data_all\<close>, which the report counts, is
  not assigned.
\<close>

lemma list_edit_effect:
  assumes "found_Q self = Some text" and "widget_report self = Some r"
  shows "\<exists>self'. widget_queue_input self = Inr self'
           \<and> data_all self' = data_all self
           \<and> data_count self' = Some (length (split_nl text))
           \<and> data_index self' = 1 \<and> data_current self' = []
           \<and> widget_report self' = Some (report_text self')
           \<and> effects self' = effects self @ [SetDirty, ApiCmd (node_id self) ''reset'']"
  using assms by (simp add: widget_queue_input_def update_list_Some report_text_def)

text \<open>
  C2. The claim: a list edit sets the items to the lines of the text, so that a fresh node
  whose list widget is set to the three lines a, b, c has items a, b, c, cursor 1 and the
  report \<^verbatim>\<open>[1 / 3]\<close>. On the code the edit stores the number of lines in \<^verbatim>\<open>data_count\<close>,
  which nothing reads, and leaves \<^verbatim>\<open>data_all\<close> empty: the report of the fresh node reads
  \<^verbatim>\<open>[1 / 0]\<close>.
\<close>

theorem list_edit_keeps_items:
  "onNodeCreated host_node = Inr created_node
   \<and> widget_queue_input (created_node\<lparr>found_Q := Some text_abc\<rparr>)
       = Inr (created_node\<lparr>found_Q := Some text_abc,
                data_count := Some 3, data_index := 1, data_current := [],
                widget_report := Some (''[1 / 0]'' @ [nl]),
                effects := effects created_node @ [SetDirty, ApiCmd 7 ''reset'']\<rparr>)
   \<and> data_all created_node = []"
proof -
  let ?n = "created_node\<lparr>found_Q := Some text_abc\<rparr>"
  have wr: "widget_report ?n = Some []"
    by (simp add: created_node_def)
  have da: "data_all created_node = []"
    by (simp add: created_node_def host_node_def)
  have rt: "report_text (?n\<lparr>data_index := 1, data_current := []\<rparr>) = ''[1 / 0]'' @ [nl]"
    by (simp add: report_text_def da string_of_int_digits string_of_nat_digits)
  have "widget_queue_input ?n = update_list ?n [''a'', ''b'', ''c'']"
    by (simp add: widget_queue_input_def split_text_abc)
  also have "\<dots> = Inr (?n\<lparr>data_count := Some 3, data_index := 1, data_current := [],
                widget_report := Some (''[1 / 0]'' @ [nl]),
                effects := effects ?n @ [SetDirty, ApiCmd (node_id ?n) ''reset'']\<rparr>)"
    unfolding update_list_Some [OF wr] rt by simp
  finally show ?thesis
    using onNodeCreated_host da by (simp add: created_node_def host_node_def)
qed

subsection \<open>Progress events\<close>

lemma string_of_nat_Suc3: "string_of_nat (Suc (Suc (Suc 0))) = ''3''"
  using string_of_nat_digits(4) by (simp add: numeral_3_eq_3)

text \<open>
  The listener exists only after \<^verbatim>\<open>onNodeCreated\<close> has made the report widget, hence the
  second premise.
\<close>

lemma ping_match:
  assumes "d_id detail = node_id self" and "widget_report self = Some r"
  shows "python_queue_ping self detail =
           Inr (self\<lparr>data_index := d_i detail, data_all := d_l detail, data_current := d_c detail,
                     widget_report := Some (''['' @ string_of_int (d_i detail) @ '' / ''
                        @ string_of_nat (length (d_l detail)) @ '']'' @ [nl] @ d_c detail),
                     effects := effects self @ [SetDirty]\<rparr>)"
  using assms by (simp add: python_queue_ping_def update_report_def report_text_def)

text \<open>An event for another node changes nothing.\<close>

lemma ping_other_node:
  "d_id detail \<noteq> node_id self \<Longrightarrow> python_queue_ping self detail = Inr self"
  by (simp add: python_queue_ping_def)

text \<open>
  C7. A progress event whose id is the node's id overwrites cursor, items and label with the
  payload's \<^verbatim>\<open>i\<close>, \<^verbatim>\<open>l\<close> and \<^verbatim>\<open>c\<close> and rewrites the report from them; the payload with index
  2, the list a, b, c and the label b gives the report \<^verbatim>\<open>[2 / 3]\<close>, a line feed and \<^verbatim>\<open>b\<close>.
\<close>

theorem progress_event_applied:
  assumes "d_id detail = node_id self" and "widget_report self = Some r"
  shows "\<exists>self'. python_queue_ping self detail = Inr self'
           \<and> data_index self' = d_i detail
           \<and> data_all self' = d_l detail
           \<and> data_current self' = d_c detail
           \<and> widget_report self' = Some (''['' @ string_of_int (data_index self') @ '' / ''
                 @ string_of_nat (length (data_all self')) @ '']'' @ [nl] @ data_current self')
           \<and> (d_i detail = 2 \<and> d_l detail = [''a'', ''b'', ''c''] \<and> d_c detail = ''b''
                \<longrightarrow> widget_report self' = Some (''[2 / 3]'' @ [nl] @ ''b''))"
  unfolding ping_match [OF assms]
  by (simp add: string_of_int_digits string_of_nat_Suc3)

theorem progress_event_applied_witness:
  "\<exists>self'. python_queue_ping created_node detail_2abc = Inr self'
      \<and> data_index self' = 2 \<and> data_all self' = [''a'', ''b'', ''c''] \<and> data_current self' = ''b''
      \<and> widget_report self' = Some (''[2 / 3]'' @ [nl] @ ''b'')"
proof -
  have a: "d_id detail_2abc = node_id created_node"
    by (simp add: detail_2abc_def created_node_def host_node_def)
  have b: "widget_report created_node = Some []"
    by (simp add: created_node_def)
  show ?thesis
    using progress_event_applied [OF a b] by (auto simp add: detail_2abc_def)
qed

text \<open>
  C9. The payload of a matching progress event is taken as it is: when its index exceeds the
  length of its list, the node ends with a cursor beyond the number of items and the report
  shows that pair, for instance \<^verbatim>\<open>[5 / 3]\<close> followed by the label.
\<close>

theorem progress_event_unvalidated:
  assumes "d_id detail = node_id self" and "widget_report self = Some r"
    and "int (length (d_l detail)) < d_i detail"
  shows "\<exists>self'. python_queue_ping self detail = Inr self'
           \<and> data_index self' = d_i detail \<and> data_all self' = d_l detail
           \<and> data_current self' = d_c detail
           \<and> int (length (data_all self')) < data_index self'
           \<and> widget_report self' = Some (''['' @ string_of_int (d_i detail) @ '' / ''
                 @ string_of_nat (length (d_l detail)) @ '']'' @ [nl] @ d_c detail)
           \<and> (d_i detail = 5 \<and> length (d_l detail) = 3
                \<longrightarrow> widget_report self' = Some (''[5 / 3]'' @ [nl] @ d_c detail))"
  unfolding ping_match [OF assms(1,2)] using assms(3)
  by (simp add: string_of_int_digits string_of_nat_digits)

theorem progress_event_unvalidated_witness:
  "\<exists>self'. python_queue_ping created_node detail_5xyz = Inr self'
      \<and> data_index self' = 5 \<and> length (data_all self') = 3
      \<and> widget_report self' = Some (''[5 / 3]'' @ [nl] @ ''q'')"
proof -
  have a: "d_id detail_5xyz = node_id created_node"
    by (simp add: detail_5xyz_def created_node_def host_node_def)
  have b: "widget_report created_node = Some []"
    by (simp add: created_node_def)
  have c: "int (length (d_l detail_5xyz)) < d_i detail_5xyz"
    by (simp add: detail_5xyz_def)
  show ?thesis
    using progress_event_unvalidated [OF a b c] by (auto simp add: detail_5xyz_def)
qed

subsection \<open>The value callback\<close>

text \<open>
  C8. After the callback of the value widget, the hold widget and the reset widget are
  visible exactly when the value is 0, whatever their visibility was before.
\<close>

theorem value_callback_visibility:
  assumes "found_hold this = Some h" and "found_RESET this = Some r" and "found_VAL this = Some v"
  shows "\<exists>this' h' r'. widget_value_callback this = Inr this'
           \<and> found_hold this' = Some h' \<and> found_RESET this' = Some r'
           \<and> (\<not> t_hidden h') = (n_value v = 0)
           \<and> (\<not> t_hidden r') = (n_value v = 0)
           \<and> effects this' = effects this @ [FitHeight]"
  using assms
  by (simp add: widget_value_callback_def Let_def widget_hide_def widget_show_def)

theorem value_callback_visibility_witness:
  "(\<exists>this' h' r'. widget_value_callback created_node = Inr this'
       \<and> found_hold this' = Some h' \<and> found_RESET this' = Some r'
       \<and> \<not> t_hidden h' \<and> \<not> t_hidden r')
   \<and> (\<exists>this' h' r'. widget_value_callback (created_node\<lparr>found_VAL := Some \<lparr>n_value = 5\<rparr>\<rparr>) = Inr this'
       \<and> found_hold this' = Some h' \<and> found_RESET this' = Some r'
       \<and> t_hidden h' \<and> t_hidden r')"
proof -
  have h: "found_hold created_node = Some \<lparr>t_value = False, t_hidden = False\<rparr>"
    and r: "found_RESET created_node = Some \<lparr>t_value = False, t_hidden = False\<rparr>"
    and v: "found_VAL created_node = Some \<lparr>n_value = 0\<rparr>"
    by (simp_all add: created_node_def host_node_def)
  let ?m = "created_node\<lparr>found_VAL := Some \<lparr>n_value = 5\<rparr>\<rparr>"
  have h5: "found_hold ?m = Some \<lparr>t_value = False, t_hidden = False\<rparr>"
    and r5: "found_RESET ?m = Some \<lparr>t_value = False, t_hidden = False\<rparr>"
    and v5: "found_VAL ?m = Some \<lparr>n_value = 5\<rparr>"
    by (simp_all add: created_node_def host_node_def)
  show ?thesis
    using value_callback_visibility [OF h r v] value_callback_visibility [OF h5 r5 v5]
    by auto
qed

subsection \<open>The connect gate\<close>

lemma prefix_glyph_not_seed: "''seed'' \<noteq> prefix_glyph"
  by (simp add: prefix_glyph_def)

lemma find_sampler:
  "find (\<lambda>w. w_name w = ''sampler'') [combo_widget, number_widget] = Some combo_widget"
  by (simp add: combo_widget_def)

text \<open>
  C1, as amended. \<^verbatim>\<open>onConnectOutput\<close> rejects the link exactly when the output index is 0,
  the input type is \<^verbatim>\<open>COMBO\<close>, the output socket is named differently from the placeholder,
  the list text of the node and the values of the downstream widget are there, and the text
  differs from the values joined by line feeds. While the socket still carries the
  placeholder, or when the texts are equal, or the input is not \<^verbatim>\<open>COMBO\<close>, or the index is
  not 0, the gate does not reject.
\<close>

theorem connect_attempt_rejects_iff:
  "onConnectOutput this outputIndex inputType inputSlot inputNode = Inr RejectLink
   \<longleftrightarrow> outputIndex = 0 \<and> inputType = ''COMBO''
       \<and> (\<exists>out0 rest ws text w opts vals.
             outputs this = out0 # rest \<and> s_name out0 \<noteq> prefix_glyph
             \<and> widget_queue this = Some text
             \<and> g_widgets inputNode = Some ws
             \<and> find (\<lambda>w. w_name w = s_name inputSlot) ws = Some w
             \<and> w_options w = Some opts \<and> o_values opts = Some vals
             \<and> text \<noteq> join_nl vals)"
  by (auto simp add: onConnectOutput_def Let_def split: option.splits list.splits)

theorem connect_attempt_rejects_iff_witness:
  "onConnectOutput bound_node 0 ''COMBO'' \<lparr>s_name = ''sampler''\<rparr> downstream = Inr RejectLink"
proof -
  have "outputs bound_node = \<lparr>s_name = ''seed''\<rparr> # []"
    and "widget_queue bound_node = Some ''a''"
    and "g_widgets downstream = Some [combo_widget, number_widget]"
    and "w_options combo_widget = Some \<lparr>o_values = Some [''x'', ''y''], o_forceInput = None, o_menu = None\<rparr>"
    and "''a'' \<noteq> join_nl [''x'', ''y'']"
    by (simp_all add: bound_node_def downstream_def combo_widget_def)
  then show ?thesis
    using connect_attempt_rejects_iff [of bound_node 0 "''COMBO''" "\<lparr>s_name = ''sampler''\<rparr>" downstream]
      find_sampler prefix_glyph_not_seed
    by simp
qed

text \<open>
  C1 as stated fails: with the socket still named by the placeholder and a list text that
  differs from the joined values the link is passed on, not rejected; with the socket
  renamed and the same texts it is rejected.
\<close>

theorem connect_attempt_counterexample:
  "s_name (hd (outputs unbound_node)) = prefix_glyph
   \<and> widget_queue unbound_node = Some ''a''
   \<and> o_values (the (w_options combo_widget)) = Some [''x'', ''y'']
   \<and> ''a'' \<noteq> join_nl [''x'', ''y'']
   \<and> onConnectOutput unbound_node 0 ''COMBO'' \<lparr>s_name = ''sampler''\<rparr> downstream = Inr PrevResult
   \<and> s_name (hd (outputs bound_node)) \<noteq> prefix_glyph
   \<and> onConnectOutput bound_node 0 ''COMBO'' \<lparr>s_name = ''sampler''\<rparr> downstream = Inr RejectLink"
  by (simp add: onConnectOutput_def unbound_node_def bound_node_def created_node_def host_node_def
        downstream_def combo_widget_def prefix_glyph_def)

subsection \<open>Fatal paths\<close>

text \<open>
  C3. The claim: no handler has a path that throws. On the code, a completion event for the
  node just created throws, because \<^verbatim>\<open>self.widget_queue\<close> was never assigned; the connect gate
  throws when the downstream node has no widget named like the slot; a new link to a combo
  widget throws for the same missing property; and creation throws without the widget
  \<^verbatim>\<open>VAL\<close>.
\<close>

theorem handlers_throw:
  "onNodeCreated host_node = Inr created_node
   \<and> python_queue_done created_node 7 = Inl (TypeError, created_node)
   \<and> onConnectOutput bound_node 0 ''COMBO'' \<lparr>s_name = ''missing''\<rparr> downstream = Inl TypeError
   \<and> onConnectionsChange graph3 created_node Output 0 Connect
        (Some \<lparr>target_id = 3, target_slot = 0\<rparr>)
       = Inl (TypeError, created_node\<lparr>outputs := [\<lparr>s_name = ''sampler''\<rparr>]\<rparr>)
   \<and> onNodeCreated (host_node\<lparr>found_VAL := None\<rparr>)
       = Inl (TypeError, host_node\<lparr>found_VAL := None, data_index := 1, effects := [PrevHook]\<rparr>)"
proof -
  have 1: "python_queue_done created_node 7 = Inl (TypeError, created_node)"
    by (simp add: python_queue_done_def created_node_def host_node_def)
  have 2: "onConnectOutput bound_node 0 ''COMBO'' \<lparr>s_name = ''missing''\<rparr> downstream = Inl TypeError"
    by (simp add: onConnectOutput_def bound_node_def downstream_def combo_widget_def
          number_widget_def prefix_glyph_def)
  have 3: "onConnectionsChange graph3 created_node Output 0 Connect
        (Some \<lparr>target_id = 3, target_slot = 0\<rparr>)
       = Inl (TypeError, created_node\<lparr>outputs := [\<lparr>s_name = ''sampler''\<rparr>]\<rparr>)"
    by (simp add: onConnectionsChange_def graph3_def downstream_def bind_widget_def
          set_output0_name_def is_combo_def call_prev_def created_node_def host_node_def
          combo_widget_def)
  have 4: "onNodeCreated (host_node\<lparr>found_VAL := None\<rparr>)
       = Inl (TypeError, host_node\<lparr>found_VAL := None, data_index := 1, effects := [PrevHook]\<rparr>)"
    by (simp add: onNodeCreated_def Let_def host_node_def)
  from 1 2 3 4 onNodeCreated_host show ?thesis by simp
qed

subsection \<open>Link changes\<close>

lemma connect_resolution:
  "onConnectionsChange getNodeById this Output 0 Connect (Some li) =
     (case downstream_widget getNodeById li of
        None \<Rightarrow> Inr this
      | Some widget \<Rightarrow> call_prev (bind_widget this widget))"
  by (simp add: onConnectionsChange_def downstream_widget_def Let_def split: option.splits)

lemma downstream_widget_None_iff:
  "downstream_widget getNodeById li = None \<longleftrightarrow>
     getNodeById (target_id li) = None
     \<or> (\<exists>node. getNodeById (target_id li) = Some node \<and>
           (g_inputs node = None
            \<or> (\<exists>inputs. g_inputs node = Some inputs \<and>
                  (length inputs \<le> target_slot li
                   \<or> g_widgets node = None
                   \<or> (\<exists>ws. g_widgets node = Some ws
                          \<and> find (\<lambda>w. w_name w = s_name (inputs ! target_slot li)) ws = None)))))"
  by (auto simp add: downstream_widget_def split: option.splits)

lemma bind_widget_plain:
  assumes "outputs this = out0 # rest" and "\<not> is_combo widget"
  shows "bind_widget this widget = Inr (this\<lparr>outputs := out0\<lparr>s_name := w_name widget\<rparr> # rest\<rparr>)"
  using assms by (simp add: bind_widget_def set_output0_name_def)

lemma bind_widget_combo:
  assumes "outputs this = out0 # rest" and "is_combo widget"
    and "w_options widget = Some opts" and "o_values opts = Some vals"
    and "widget_queue this = Some q" and "widget_report this = Some r"
  shows "bind_widget this widget =
           Inr (this\<lparr>outputs := out0\<lparr>s_name := w_name widget\<rparr> # rest,
                     widget_queue := Some (join_nl vals),
                     data_count := Some (length vals), data_index := 1, data_current := [],
                     widget_report := Some (report_text (this\<lparr>data_index := 1, data_current := []\<rparr>)),
                     effects := effects this @ [SetDirty, ApiCmd (node_id this) ''reset'']\<rparr>)"
proof -
  let ?t = "this\<lparr>outputs := out0\<lparr>s_name := w_name widget\<rparr> # rest, widget_queue := Some (join_nl vals)\<rparr>"
  have wr: "widget_report ?t = Some r"
    using assms(6) by simp
  have "bind_widget this widget = update_list ?t vals"
    using assms by (simp add: bind_widget_def set_output0_name_def)
  then show ?thesis
    unfolding update_list_Some [OF wr] by (simp add: report_text_def)
qed
lemma downstream_slot0: "downstream_widget graph3 \<lparr>target_id = 3, target_slot = 0\<rparr> = Some combo_widget"
  by (simp add: downstream_widget_def graph3_def downstream_def combo_widget_def)

lemma downstream_slot1: "downstream_widget graph3 \<lparr>target_id = 3, target_slot = 1\<rparr> = Some number_widget"
  by (simp add: downstream_widget_def graph3_def downstream_def combo_widget_def number_widget_def)

lemma downstream_node9: "downstream_widget graph3 \<lparr>target_id = 9, target_slot = 0\<rparr> = None"
  by (simp add: downstream_widget_def graph3_def)

lemma is_combo_examples: "is_combo combo_widget" "\<not> is_combo number_widget"
  by (simp_all add: is_combo_def combo_widget_def number_widget_def)

text \<open>
  Once the downstream widget is found, the handler ends, by return or by exception, with the
  socket renamed to the widget's name, for every kind of widget, and with \<^verbatim>\<open>data_all\<close> as it
  was before.
\<close>

lemma connect_outcome:
  assumes "downstream_widget getNodeById li = Some widget" and "outputs this = out0 # rest"
  shows "\<exists>s. (onConnectionsChange getNodeById this Output 0 Connect (Some li) = Inr s
              \<or> onConnectionsChange getNodeById this Output 0 Connect (Some li) = Inl (TypeError, s))
           \<and> outputs s = out0\<lparr>s_name := w_name widget\<rparr> # rest
           \<and> data_all s = data_all this"
proof -
  let ?t = "this\<lparr>outputs := out0\<lparr>s_name := w_name widget\<rparr> # rest\<rparr>"
  have sn: "set_output0_name this (w_name widget) = Inr ?t"
    using assms(2) by (simp add: set_output0_name_def)
  have "\<exists>s. (bind_widget this widget = Inr s \<or> bind_widget this widget = Inl (TypeError, s))
           \<and> outputs s = out0\<lparr>s_name := w_name widget\<rparr> # rest \<and> data_all s = data_all this"
    unfolding bind_widget_def sn
    by (auto simp add: update_list_def update_report_def split: option.splits)
  then show ?thesis
    unfolding connect_resolution assms(1) by (auto simp add: call_prev_def)
qed

text \<open>The combo link on a node whose \<^verbatim>\<open>this.widget_queue\<close> something else has assigned.\<close>

lemma combo_link_on_unbound_node:
  "onConnectionsChange graph3 unbound_node Output 0 Connect (Some \<lparr>target_id = 3, target_slot = 0\<rparr>)
     = Inr (unbound_node\<lparr>outputs := [\<lparr>s_name = ''sampler''\<rparr>],
              widget_queue := Some (''x'' @ [nl] @ ''y''),
              data_count := Some 2, data_index := 1, data_current := [],
              widget_report := Some (''[1 / 0]'' @ [nl]),
              effects := effects unbound_node @ [SetDirty, ApiCmd 7 ''reset'', PrevHook]\<rparr>)"
proof -
  have o: "outputs unbound_node = \<lparr>s_name = prefix_glyph\<rparr> # []"
    and q: "widget_queue unbound_node = Some ''a''" and r: "widget_report unbound_node = Some []"
    and i: "node_id unbound_node = 7" and d: "data_all unbound_node = []"
    by (simp_all add: unbound_node_def created_node_def host_node_def)
  have w: "w_options combo_widget = Some \<lparr>o_values = Some [''x'', ''y''], o_forceInput = None, o_menu = None\<rparr>"
    and n: "w_name combo_widget = ''sampler''"
    by (simp_all add: combo_widget_def)
  have v: "o_values \<lparr>o_values = Some [''x'', ''y''], o_forceInput = None, o_menu = None\<rparr> = Some [''x'', ''y'']"
    by simp
  have rt: "report_text (unbound_node\<lparr>data_index := 1, data_current := []\<rparr>) = ''[1 / 0]'' @ [nl]"
    by (simp add: report_text_def d string_of_int_digits string_of_nat_digits)
  show ?thesis
    unfolding connect_resolution downstream_slot0
    by (simp add: bind_widget_combo [OF o is_combo_examples(1) w v q r] rt n i call_prev_def)
qed

text \<open>
  C5. The claim: a new link that resolves to a combo widget renames the socket, replaces the
  items by the widget's values and resets and re-signals like a list edit; a link to another
  widget does not rename. On the code, the combo link on the node just created renames the
  socket and then throws at the write to \<^verbatim>\<open>this.widget_queue\<close>, which was never assigned:
  the items stay empty, cursor, label and report are untouched and no reset command is sent.
  Where the property has been assigned from outside, the reset happens but the items still
  stay empty and the report reads \<^verbatim>\<open>[1 / 0]\<close>. The link to the number widget renames the
  socket as well.
\<close>

theorem combo_link_renames_then_throws:
  "onNodeCreated host_node = Inr created_node
   \<and> downstream_widget graph3 \<lparr>target_id = 3, target_slot = 0\<rparr> = Some combo_widget
   \<and> is_combo combo_widget
   \<and> w_options combo_widget = Some \<lparr>o_values = Some [''x'', ''y''], o_forceInput = None, o_menu = None\<rparr>
   \<and> onConnectionsChange graph3 created_node Output 0 Connect (Some \<lparr>target_id = 3, target_slot = 0\<rparr>)
       = Inl (TypeError, created_node\<lparr>outputs := [\<lparr>s_name = ''sampler''\<rparr>]\<rparr>)
   \<and> data_all created_node = []
   \<and> onConnectionsChange graph3 unbound_node Output 0 Connect (Some \<lparr>target_id = 3, target_slot = 0\<rparr>)
       = Inr (unbound_node\<lparr>outputs := [\<lparr>s_name = ''sampler''\<rparr>],
                widget_queue := Some (''x'' @ [nl] @ ''y''),
                data_count := Some 2, data_index := 1, data_current := [],
                widget_report := Some (''[1 / 0]'' @ [nl]),
                effects := effects unbound_node @ [SetDirty, ApiCmd 7 ''reset'', PrevHook]\<rparr>)
   \<and> data_all unbound_node = []
   \<and> downstream_widget graph3 \<lparr>target_id = 3, target_slot = 1\<rparr> = Some number_widget
   \<and> \<not> is_combo number_widget
   \<and> onConnectionsChange graph3 created_node Output 0 Connect (Some \<lparr>target_id = 3, target_slot = 1\<rparr>)
       = Inr (created_node\<lparr>outputs := [\<lparr>s_name = ''seed''\<rparr>],
                            effects := effects created_node @ [PrevHook]\<rparr>)"
proof -
  have o: "outputs created_node = \<lparr>s_name = prefix_glyph\<rparr> # []"
    and q: "widget_queue created_node = None"
    and d: "data_all created_node = []" "data_all unbound_node = []"
    by (simp_all add: unbound_node_def created_node_def host_node_def)
  have w: "w_options combo_widget = Some \<lparr>o_values = Some [''x'', ''y''], o_forceInput = None, o_menu = None\<rparr>"
    and n: "w_name combo_widget = ''sampler''" "w_name number_widget = ''seed''"
    by (simp_all add: combo_widget_def number_widget_def)
  have "bind_widget created_node combo_widget
          = Inl (TypeError, created_node\<lparr>outputs := [\<lparr>s_name = ''sampler''\<rparr>]\<rparr>)"
    using o q w n is_combo_examples(1) by (simp add: bind_widget_def set_output0_name_def)
  then have A: "onConnectionsChange graph3 created_node Output 0 Connect
        (Some \<lparr>target_id = 3, target_slot = 0\<rparr>)
       = Inl (TypeError, created_node\<lparr>outputs := [\<lparr>s_name = ''sampler''\<rparr>]\<rparr>)"
    unfolding connect_resolution downstream_slot0 by (simp add: call_prev_def)
  have "bind_widget created_node number_widget
          = Inr (created_node\<lparr>outputs := [\<lparr>s_name = ''seed''\<rparr>]\<rparr>)"
    using bind_widget_plain [OF o is_combo_examples(2)] n by simp
  then have B: "onConnectionsChange graph3 created_node Output 0 Connect
        (Some \<lparr>target_id = 3, target_slot = 1\<rparr>)
       = Inr (created_node\<lparr>outputs := [\<lparr>s_name = ''seed''\<rparr>],
                            effects := effects created_node @ [PrevHook]\<rparr>)"
    unfolding connect_resolution downstream_slot1 by (simp add: call_prev_def)
  from A B d w onNodeCreated_host downstream_slot0 downstream_slot1 is_combo_examples
    combo_link_on_unbound_node
  show ?thesis by blast
qed

text \<open>
  C6, as amended. On a disconnection, and on a change that carries no link, the output
  socket's name becomes the placeholder whatever it was. When the lookups of a new
  connection fail, the handler returns with the node as it was, so the socket keeps its name.
\<close>

theorem disconnect_reverts_name:
  assumes "outputs this = out0 # rest"
  shows "(event \<noteq> Connect \<or> link = None \<longrightarrow>
            onConnectionsChange getNodeById this Output 0 event link
              = Inr (this\<lparr>outputs := out0\<lparr>s_name := prefix_glyph\<rparr> # rest,
                          effects := effects this @ [PrevHook]\<rparr>))
       \<and> (downstream_widget getNodeById li = None \<longrightarrow>
            onConnectionsChange getNodeById this Output 0 Connect (Some li) = Inr this)"
proof (intro conjI impI)
  assume "event \<noteq> Connect \<or> link = None"
  then show "onConnectionsChange getNodeById this Output 0 event link
              = Inr (this\<lparr>outputs := out0\<lparr>s_name := prefix_glyph\<rparr> # rest,
                          effects := effects this @ [PrevHook]\<rparr>)"
    using assms
    by (cases link) (auto simp add: onConnectionsChange_def set_output0_name_def call_prev_def)
next
  assume "downstream_widget getNodeById li = None"
  then show "onConnectionsChange getNodeById this Output 0 Connect (Some li) = Inr this"
    by (simp add: connect_resolution)
qed

theorem disconnect_reverts_name_witness:
  "onConnectionsChange graph3 bound_node Output 0 Disconnect (Some \<lparr>target_id = 3, target_slot = 1\<rparr>)
     = Inr (bound_node\<lparr>outputs := [\<lparr>s_name = prefix_glyph\<rparr>],
                       effects := effects bound_node @ [PrevHook]\<rparr>)
   \<and> onConnectionsChange graph3 bound_node Output 0 Connect None
     = Inr (bound_node\<lparr>outputs := [\<lparr>s_name = prefix_glyph\<rparr>],
                       effects := effects bound_node @ [PrevHook]\<rparr>)
   \<and> onConnectionsChange graph3 bound_node Output 0 Connect (Some \<lparr>target_id = 9, target_slot = 0\<rparr>)
     = Inr bound_node"
proof -
  have o: "outputs bound_node = \<lparr>s_name = ''seed''\<rparr> # []"
    by (simp add: bound_node_def)
  show ?thesis
    using disconnect_reverts_name [OF o, of Disconnect "Some \<lparr>target_id = 3, target_slot = 1\<rparr>" graph3
        "\<lparr>target_id = 9, target_slot = 0\<rparr>"]
      disconnect_reverts_name [OF o, of Connect None graph3 "\<lparr>target_id = 9, target_slot = 0\<rparr>"]
      downstream_node9
    by simp
qed

text \<open>C6 as stated fails: a new link to a node the graph does not have leaves the name \<^verbatim>\<open>seed\<close>.\<close>

theorem failed_resolution_keeps_name_counterexample:
  "downstream_widget graph3 \<lparr>target_id = 9, target_slot = 0\<rparr> = None
   \<and> graph3 9 = None
   \<and> onConnectionsChange graph3 bound_node Output 0 Connect (Some \<lparr>target_id = 9, target_slot = 0\<rparr>)
       = Inr bound_node
   \<and> outputs bound_node = [\<lparr>s_name = ''seed''\<rparr>]
   \<and> ''seed'' \<noteq> prefix_glyph"
proof -
  have "onConnectionsChange graph3 bound_node Output 0 Connect (Some \<lparr>target_id = 9, target_slot = 0\<rparr>)
       = Inr bound_node"
    unfolding connect_resolution downstream_node9 by simp
  moreover have "graph3 9 = None"
    by (simp add: graph3_def)
  moreover have "outputs bound_node = [\<lparr>s_name = ''seed''\<rparr>]"
    by (simp add: bound_node_def)
  moreover have "''seed'' \<noteq> prefix_glyph"
    by (simp add: prefix_glyph_def)
  ultimately show ?thesis
    using downstream_node9 by blast
qed

subsection \<open>The menu converter\<close>

text \<open>
  Whatever the hook does, the array the caller passed is, when the hook returns, what the
  earlier hook left of it: \<^verbatim>\<open>filter\<close> makes a new array, the parameter is rebound to it, and
  the new entries are pushed there.
\<close>

lemma menu_caller_array_untouched:
  assumes "getExtraMenuOptions CT mt prev this (Some a) h0 = Inr h'"
  shows "array_at h' a = array_at (prev h0) a"
proof (cases "m_widgets this")
  case None
  with assms show ?thesis by (simp add: getExtraMenuOptions_def)
next
  case (Some ws)
  show ?thesis
  proof (cases "a < length (prev h0)")
    case False
    with assms Some show ?thesis
      by (simp add: getExtraMenuOptions_def array_at_def Let_def)
  next
    case True
    with assms Some show ?thesis
      by (auto simp add: getExtraMenuOptions_def array_at_def alloc_def push_def Let_def
            nth_append split: if_splits)
  qed
qed

text \<open>Without an options array, \<^verbatim>\<open>options.push\<close> throws as soon as there is an entry to add.\<close>

lemma menu_undefined_options_throws:
  assumes "m_widgets this = Some ws" and "convertToInputArray CT ws mt \<noteq> []"
  shows "getExtraMenuOptions CT mt prev this None h0 = Inl TypeError"
  using assms by (simp add: getExtraMenuOptions_def)

text \<open>
  C4. The claim: the entries that begin with \<^verbatim>\<open>Convert\<close> are stripped from the menu the
  caller receives and a conversion entry per eligible widget is appended to the caller's
  list. On the code, for a caller's list holding one entry \<^verbatim>\<open>Convert seed to input\<close> and a
  node with the eligible widget \<^verbatim>\<open>seed\<close>, the caller's array (address 0) is unchanged; the
  stripped list with the new entry and the separator is a second array (address 1) that only
  the hook's local variable names.
\<close>

theorem menu_caller_options_unchanged:
  "getExtraMenuOptions ''converted-widget'' [(''seed'', ''INT'')] (\<lambda>h. h)
      \<lparr>m_widgets = Some [number_widget]\<rparr> (Some 0)
      [[Entry (Some ''Convert seed to input'') (HostAction 0)]]
   = Inr [[Entry (Some ''Convert seed to input'') (HostAction 0)],
          [Entry (Some ''Convsert seed to input'') (ConvertToInput ''seed'' ''INT''), Null]]"
  by (simp add: getExtraMenuOptions_def array_at_def alloc_def push_def number_widget_def
        opt_forceInput_def opt_menu_def)

text \<open>The closure of an installed hook holds the required entries followed by the optional ones.\<close>

lemma hook_closure:
  "beforeRegisterNodeDef nodeData = Installed mt \<Longrightarrow>
     mt = (case nd_input nodeData of None \<Rightarrow> []
           | Some inputTypes \<Rightarrow> entries_or_empty (required inputTypes) @ entries_or_empty (optional inputTypes))"
  by (auto simp add: beforeRegisterNodeDef_def Let_def split: option.splits if_splits)

text \<open>
  C10, as amended. The hook is installed exactly for the node definitions whose name contains
  \<^verbatim>\<open>(JOV)\<close> and that either carry no input schema at all or declare at least one required
  or optional input; for every other definition the prototype's hook is left as it is.
\<close>

theorem hook_installed_iff:
  "beforeRegisterNodeDef nodeData \<noteq> Unmodified
   \<longleftrightarrow> includes_str (nd_name nodeData) ''(JOV)''
       \<and> (nd_input nodeData = None
          \<or> (\<exists>inputTypes. nd_input nodeData = Some inputTypes
                \<and> entries_or_empty (required inputTypes) @ entries_or_empty (optional inputTypes) \<noteq> []))"
  by (auto simp add: beforeRegisterNodeDef_def Let_def split: option.splits)

theorem hook_installed_iff_witness:
  "beforeRegisterNodeDef \<lparr>nd_name = ''X (JOV)'', nd_input = Some \<lparr>required = Some [(''seed'', ''INT'')], optional = None\<rparr>\<rparr> \<noteq> Unmodified
   \<and> beforeRegisterNodeDef \<lparr>nd_name = ''X (JOV)'', nd_input = None\<rparr> \<noteq> Unmodified"
  using hook_installed_iff [of "\<lparr>nd_name = ''X (JOV)'', nd_input = Some \<lparr>required = Some [(''seed'', ''INT'')], optional = None\<rparr>\<rparr>"]
    hook_installed_iff [of "\<lparr>nd_name = ''X (JOV)'', nd_input = None\<rparr>"]
  by (simp add: entries_or_empty_def)

text \<open>
  C10 as stated fails: a definition named \<^verbatim>\<open>X (JOV)\<close> without an input schema declares no
  input, and the hook is installed on it, with an empty closure.
\<close>

theorem hook_without_schema_counterexample:
  "nd_input \<lparr>nd_name = ''X (JOV)'', nd_input = None\<rparr> = None
   \<and> beforeRegisterNodeDef \<lparr>nd_name = ''X (JOV)'', nd_input = None\<rparr> = Installed []"
  by (simp add: beforeRegisterNodeDef_def)

end
